theory Spec2Isabelle
  imports Complex_Main "HOL-Library.Word"
begin


section \<open>JavaScript values\<close>

text \<open>
  A JavaScript string is a sequence of 16-bit code units. The string literals of the
  program are ASCII, except the placeholder; \<open>str\<close> turns an ASCII literal into its
  code units.
\<close>

type_synonym code_unit = "16 word"
type_synonym jsstring = "code_unit list"

definition str :: "string \<Rightarrow> jsstring" where
  "str s = map of_char s"

text \<open>
  The values the program handles come out of \<open>JSON.parse\<close> (the request body, the
  backend's response, a stream frame), or are \<open>undefined\<close>, the value of a missing
  property. A number is kept by its numerical value (JSON text has neither NaN nor
  infinities); an object is the association list of its own properties, one entry per key,
  read with \<open>map_of\<close>.
\<close>

datatype js =
    JUndefined
  | JNull
  | JBool bool
  | JNum rat
  | JStr jsstring
  | JArr "js list"
  | JObj "(jsstring \<times> js) list"

datatype error = TypeError

text \<open>Truthiness, as \<open>if (x)\<close>, \<open>!x\<close> and \<open>x || y\<close> test it.\<close>

fun truthy :: "js \<Rightarrow> bool" where
  "truthy JUndefined = False"
| "truthy JNull = False"
| "truthy (JBool b) = b"
| "truthy (JNum n) = (n \<noteq> 0)"
| "truthy (JStr s) = (s \<noteq> [])"
| "truthy (JArr xs) = True"
| "truthy (JObj kvs) = True"

definition or_else :: "js \<Rightarrow> js \<Rightarrow> js" where
  "or_else x d = (if truthy x then x else d)"

fun nullish :: "js \<Rightarrow> bool" where
  "nullish JUndefined = True"
| "nullish JNull = True"
| "nullish v = False"

text \<open>
  \<open>get v k\<close> is \<open>v.k\<close> on a value that is neither \<open>null\<close> nor \<open>undefined\<close>, for the
  property names the program reads (\<open>messages\<close>, \<open>role\<close>, \<open>content\<close>, \<open>max_tokens\<close>,
  \<open>temperature\<close>, \<open>stream\<close>, \<open>model\<close>, \<open>candidates\<close>, \<open>parts\<close>, \<open>text\<close>,
  \<open>usageMetadata\<close> and the three token counts): an object answers with its own property,
  and no string, number, boolean or array has a property of one of these names.
  \<open>member\<close> is the plain access \<open>v.k\<close>, which throws on \<open>null\<close> and \<open>undefined\<close>;
  \<open>opt_member\<close> is \<open>v?.k\<close>.
\<close>

fun get :: "js \<Rightarrow> jsstring \<Rightarrow> js" where
  "get (JObj kvs) k = (case map_of kvs k of None \<Rightarrow> JUndefined | Some v \<Rightarrow> v)"
| "get v k = JUndefined"

definition member :: "js \<Rightarrow> jsstring \<Rightarrow> error + js" where
  "member v k = (if nullish v then Inl TypeError else Inr (get v k))"

definition opt_member :: "js \<Rightarrow> jsstring \<Rightarrow> js" where
  "opt_member v k = (if nullish v then JUndefined else get v k)"

text \<open>
  \<open>v?.[0]\<close>: the first element of an array, the first code unit of a string, the
  property \<open>"0"\<close> of an object.
\<close>

fun index0 :: "js \<Rightarrow> js" where
  "index0 (JArr xs) = (case xs of [] \<Rightarrow> JUndefined | x # _ \<Rightarrow> x)"
| "index0 (JStr s) = (case s of [] \<Rightarrow> JUndefined | c # _ \<Rightarrow> JStr [c])"
| "index0 (JObj kvs) = get (JObj kvs) (str ''0'')"
| "index0 v = JUndefined"

definition opt_index0 :: "js \<Rightarrow> js" where
  "opt_index0 v = (if nullish v then JUndefined else index0 v)"

text \<open>
  \<open>for (const x of v)\<close>: an array yields its elements, a string its code points (a
  surrogate pair is one element), anything else is not iterable.
\<close>

definition is_high_surrogate :: "code_unit \<Rightarrow> bool" where
  "is_high_surrogate c = (0xD800 \<le> c \<and> c \<le> 0xDBFF)"

definition is_low_surrogate :: "code_unit \<Rightarrow> bool" where
  "is_low_surrogate c = (0xDC00 \<le> c \<and> c \<le> 0xDFFF)"

fun code_points :: "jsstring \<Rightarrow> jsstring list" where
  "code_points (a # b # s) =
     (if is_high_surrogate a \<and> is_low_surrogate b then [a, b] # code_points s
      else [a] # code_points (b # s))"
| "code_points [a] = [[a]]"
| "code_points [] = []"

fun iterate :: "js \<Rightarrow> error + js list" where
  "iterate (JArr xs) = Inr xs"
| "iterate (JStr s) = Inr (map JStr (code_points s))"
| "iterate v = Inl TypeError"


section \<open>The request mapper\<close>

text \<open>
  \<open>openaiToGeminiRequest\<close> is the same function in the three deployment variants. The
  request it builds has a fixed shape and is a record; a property of \<open>generationConfig\<close>
  that was never assigned is \<open>None\<close>.
\<close>

record part =
  p_text :: js

record content =
  c_role :: jsstring
  c_parts :: "part list"

record generationConfig =
  maxOutputTokens :: "js option"
  temperature :: "js option"

record safetySetting =
  category :: jsstring
  threshold :: jsstring

record geminiRequest =
  contents :: "content list"
  generationConfig :: generationConfig
  safetySettings :: "safetySetting list"

definition safety_settings :: "safetySetting list" where
  "safety_settings =
    [\<lparr>category = str ''HARM_CATEGORY_HARASSMENT'', threshold = str ''BLOCK_NONE''\<rparr>,
     \<lparr>category = str ''HARM_CATEGORY_HATE_SPEECH'', threshold = str ''BLOCK_NONE''\<rparr>,
     \<lparr>category = str ''HARM_CATEGORY_SEXUALLY_EXPLICIT'', threshold = str ''BLOCK_NONE''\<rparr>,
     \<lparr>category = str ''HARM_CATEGORY_DANGEROUS_CONTENT'', threshold = str ''BLOCK_NONE''\<rparr>]"

text \<open>One pass of the loop body: \<open>message.role\<close> and \<open>message.content\<close> throw on a
  \<open>null\<close> or \<open>undefined\<close> message.\<close>

definition push_message :: "js \<Rightarrow> error + content" where
  "push_message message =
     (case member message (str ''role'') of
        Inl e \<Rightarrow> Inl e
      | Inr r \<Rightarrow>
          (case member message (str ''content'') of
             Inl e \<Rightarrow> Inl e
           | Inr c \<Rightarrow>
               Inr \<lparr>c_role = (if r = JStr (str ''assistant'') then str ''model'' else str ''user''),
                    c_parts = [\<lparr>p_text = c\<rparr>]\<rparr>))"

fun push_messages :: "js list \<Rightarrow> content list \<Rightarrow> error + content list" where
  "push_messages [] acc = Inr acc"
| "push_messages (message # rest) acc =
     (case push_message message of
        Inl e \<Rightarrow> Inl e
      | Inr c \<Rightarrow> push_messages rest (acc @ [c]))"

definition copy_if_truthy :: "js \<Rightarrow> js option" where
  "copy_if_truthy v = (if truthy v then Some v else None)"

definition openaiToGeminiRequest :: "js \<Rightarrow> error + geminiRequest" where
  "openaiToGeminiRequest openaiRequest =
     (case member openaiRequest (str ''max_tokens'') of
        Inl e \<Rightarrow> Inl e
      | Inr max_tokens \<Rightarrow>
     (case member openaiRequest (str ''temperature'') of
        Inl e \<Rightarrow> Inl e
      | Inr temp \<Rightarrow>
     (case member openaiRequest (str ''messages'') of
        Inl e \<Rightarrow> Inl e
      | Inr messages \<Rightarrow>
     (case iterate messages of
        Inl e \<Rightarrow> Inl e
      | Inr ms \<Rightarrow>
     (case push_messages ms [] of
        Inl e \<Rightarrow> Inl e
      | Inr cs \<Rightarrow>
          Inr \<lparr>contents = cs,
               generationConfig =
                 \<lparr>maxOutputTokens = copy_if_truthy max_tokens,
                  temperature = copy_if_truthy temp\<rparr>,
               safetySettings = safety_settings\<rparr>)))))"

text \<open>
  A ChatRequest of the data model: a JSON object whose \<open>messages\<close> is an array of
  objects.
\<close>

definition is_object :: "js \<Rightarrow> bool" where
  "is_object v = (case v of JObj _ \<Rightarrow> True | _ \<Rightarrow> False)"

definition chat_request :: "js \<Rightarrow> js list \<Rightarrow> bool" where
  "chat_request req ms =
     (is_object req \<and> get req (str ''messages'') = JArr ms \<and> list_all is_object ms)"

text \<open>What one message of a ChatRequest becomes.\<close>

definition mapped_role :: "js \<Rightarrow> jsstring" where
  "mapped_role r = (if r = JStr (str ''assistant'') then str ''model'' else str ''user'')"

definition mapped_message :: "js \<Rightarrow> content" where
  "mapped_message m =
     \<lparr>c_role = mapped_role (get m (str ''role'')),
      c_parts = [\<lparr>p_text = get m (str ''content'')\<rparr>]\<rparr>"


section \<open>The single-shot response translator\<close>

text \<open>
  \<open>String.prototype.trim\<close> removes the white space and line terminators of ECMAScript
  from both ends: TAB, LF, VT, FF, CR, SPACE, NO-BREAK SPACE, the other space separators
  (U+1680, U+2000 to U+200A, U+202F, U+205F, U+3000), LINE and PARAGRAPH SEPARATOR, and
  the byte order mark.
\<close>

definition is_white_space :: "code_unit \<Rightarrow> bool" where
  "is_white_space c =
     (c = 0x09 \<or> c = 0x0A \<or> c = 0x0B \<or> c = 0x0C \<or> c = 0x0D \<or> c = 0x20 \<or> c = 0xA0
      \<or> c = 0x1680 \<or> (0x2000 \<le> c \<and> c \<le> 0x200A) \<or> c = 0x2028 \<or> c = 0x2029
      \<or> c = 0x202F \<or> c = 0x205F \<or> c = 0x3000 \<or> c = 0xFEFF)"

definition trim :: "jsstring \<Rightarrow> jsstring" where
  "trim s = rev (dropWhile is_white_space (rev (dropWhile is_white_space s)))"

text \<open>The placeholder of the fallback-content policy: U+55B5 followed by a tilde.\<close>

definition placeholder :: jsstring where
  "placeholder = [0x55B5, 0x7E]"

text \<open>\<open>geminiResponse.candidates?.[0]?.content?.parts?.[0]?.text\<close>: only the first
  access is a plain one.\<close>

definition first_text :: "js \<Rightarrow> error + js" where
  "first_text geminiResponse =
     (case member geminiResponse (str ''candidates'') of
        Inl e \<Rightarrow> Inl e
      | Inr candidates \<Rightarrow>
          Inr (opt_member
                (opt_index0
                  (opt_member
                    (opt_member (opt_index0 candidates) (str ''content''))
                    (str ''parts'')))
                (str ''text'')))"

record message =
  m_role :: jsstring
  m_content :: js

record choice =
  ch_index :: nat
  ch_message :: message
  ch_finish_reason :: jsstring

record usage =
  prompt_tokens :: js
  completion_tokens :: js
  total_tokens :: js

record chatResponse =
  r_id :: jsstring
  r_object :: jsstring
  r_created :: int
  r_model :: js
  r_choices :: "choice list"
  r_usage :: usage

text \<open>
  The two values the program takes from its runtime: \<open>rnd\<close> is what
  \<open>Buffer.from(Math.random().toString()).toString('hex').substring(0, 12)\<close> evaluates to,
  and \<open>now\<close> is \<open>Date.now()\<close>, in milliseconds.
\<close>

definition fresh_id :: "jsstring \<Rightarrow> jsstring" where
  "fresh_id rnd = str ''chatcmpl-'' @ rnd"

definition seconds :: "int \<Rightarrow> int" where
  "seconds now = now div 1000"

text \<open>\<open>geminiResponse.usageMetadata?.f || 0\<close>.\<close>

definition usage_count :: "js \<Rightarrow> jsstring \<Rightarrow> error + js" where
  "usage_count geminiResponse f =
     (case member geminiResponse (str ''usageMetadata'') of
        Inl e \<Rightarrow> Inl e
      | Inr u \<Rightarrow> Inr (or_else (opt_member u f) (JNum 0)))"

definition response_object ::
  "jsstring \<Rightarrow> int \<Rightarrow> js \<Rightarrow> js \<Rightarrow> js \<Rightarrow> error + chatResponse" where
  "response_object rnd now geminiResponse model content =
     (case usage_count geminiResponse (str ''promptTokenCount'') of
        Inl e \<Rightarrow> Inl e
      | Inr p \<Rightarrow>
     (case usage_count geminiResponse (str ''candidatesTokenCount'') of
        Inl e \<Rightarrow> Inl e
      | Inr c \<Rightarrow>
     (case usage_count geminiResponse (str ''totalTokenCount'') of
        Inl e \<Rightarrow> Inl e
      | Inr t \<Rightarrow>
          Inr \<lparr>r_id = fresh_id rnd,
               r_object = str ''chat.completion'',
               r_created = seconds now,
               r_model = model,
               r_choices =
                 [\<lparr>ch_index = 0,
                   ch_message = \<lparr>m_role = str ''assistant'', m_content = content\<rparr>,
                   ch_finish_reason = str ''stop''\<rparr>],
               r_usage = \<lparr>prompt_tokens = p, completion_tokens = c, total_tokens = t\<rparr>\<rparr>)))"

text \<open>
  \<open>geminiToOpenAIResponse\<close> of \<open>gemini-converter-vercel/api/index.js\<close>, the variant
  with the fallback-content policy. \<open>content.trim()\<close> is a call of a method that only a
  string has: on any other truthy value it throws.
\<close>

definition geminiToOpenAIResponse ::
  "jsstring \<Rightarrow> int \<Rightarrow> js \<Rightarrow> js \<Rightarrow> error + chatResponse" where
  "geminiToOpenAIResponse rnd now geminiResponse model =
     (case first_text geminiResponse of
        Inl e \<Rightarrow> Inl e
      | Inr t \<Rightarrow>
          (case or_else t (JStr []) of
             JStr s \<Rightarrow>
               response_object rnd now geminiResponse model
                 (if \<not> truthy (JStr (trim s)) then JStr placeholder else JStr s)
           | _ \<Rightarrow> Inl TypeError))"

text \<open>
  \<open>geminiToOpenAIResponse\<close> of the two other variants (\<open>part_000\<close>, \<open>part_001\<close>), which
  have no fallback.
\<close>

definition geminiToOpenAIResponse_plain ::
  "jsstring \<Rightarrow> int \<Rightarrow> js \<Rightarrow> js \<Rightarrow> error + chatResponse" where
  "geminiToOpenAIResponse_plain rnd now geminiResponse model =
     (case first_text geminiResponse of
        Inl e \<Rightarrow> Inl e
      | Inr t \<Rightarrow> response_object rnd now geminiResponse model (or_else t (JStr [])))"

text \<open>\<open>choices[0].message.content\<close> of a response.\<close>

definition message_content :: "chatResponse \<Rightarrow> js option" where
  "message_content r =
     (case r_choices r of [] \<Rightarrow> None | c # _ \<Rightarrow> Some (m_content (ch_message c)))"

text \<open>
  A GenerationResponse of the data model: a JSON object whose
  \<open>candidates[0].content.parts[0].text\<close>, where there is one, is a text.
\<close>

definition generation_response :: "js \<Rightarrow> bool" where
  "generation_response r =
     (is_object r \<and>
      (case first_text r of
         Inr JUndefined \<Rightarrow> True
       | Inr (JStr s) \<Rightarrow> True
       | _ \<Rightarrow> False))"


section \<open>The stream re-framer\<close>

text \<open>
  \<open>transformGeminiStreamToOpenAIStream\<close> of \<open>gemini-converter-vercel/api/index.js\<close>.
  What it writes to the response is a sequence of server-sent events: \<open>data: \<close>, the
  \<open>JSON.stringify\<close> of a chunk object and a blank line, or the literal event
  \<open>data: [DONE]\<close>. The model keeps the chunk object of each event.
\<close>

record delta =
  d_content :: "js option"

record chunk_choice =
  cc_index :: nat
  cc_delta :: delta
  cc_finish_reason :: "jsstring option"

record chatChunk =
  k_id :: jsstring
  k_object :: jsstring
  k_created :: int
  k_model :: js
  k_choices :: "chunk_choice list"

datatype sse_event = DataChunk chatChunk | DataDone

text \<open>
  The variables the three handlers close over: \<open>buffer\<close> and \<open>hasSentContent\<close> are
  assigned by the handlers, \<open>id\<close>, \<open>created\<close> and \<open>model\<close> are constants of one call, and
  the response \<open>res\<close> is what has been written to it and whether it has been ended.
\<close>

record closure =
  buffer :: jsstring
  hasSentContent :: bool
  cl_id :: jsstring
  cl_created :: int
  cl_model :: js
  written :: "sse_event list"
  writableEnded :: bool

text \<open>A write to a response that has been ended is not sent.\<close>

definition res_write :: "sse_event \<Rightarrow> closure \<Rightarrow> closure" where
  "res_write e st = (if writableEnded st then st else st\<lparr>written := written st @ [e]\<rparr>)"

definition res_end :: "closure \<Rightarrow> closure" where
  "res_end st = st\<lparr>writableEnded := True\<rparr>"

text \<open>\<open>buffer.indexOf('\n\n')\<close>, with \<open>None\<close> for \<open>-1\<close>.\<close>

fun indexOf_nn :: "jsstring \<Rightarrow> nat option" where
  "indexOf_nn (a # b # s) =
     (if a = 0x0A \<and> b = 0x0A then Some 0 else map_option Suc (indexOf_nn (b # s)))"
| "indexOf_nn s = None"

text \<open>\<open>.replace(/^data: /, '')\<close>.\<close>

definition strip_data_prefix :: "jsstring \<Rightarrow> jsstring" where
  "strip_data_prefix s = (if take 6 s = str ''data: '' then drop 6 s else s)"

definition make_chunk :: "closure \<Rightarrow> js option \<Rightarrow> jsstring option \<Rightarrow> chatChunk" where
  "make_chunk st d fr =
     \<lparr>k_id = cl_id st,
      k_object = str ''chat.completion.chunk'',
      k_created = cl_created st,
      k_model = cl_model st,
      k_choices = [\<lparr>cc_index = 0, cc_delta = \<lparr>d_content = d\<rparr>, cc_finish_reason = fr\<rparr>]\<rparr>"

text \<open>
  \<open>JSON.parse\<close> belongs to the runtime and is a parameter \<open>parse\<close> of the model, \<open>None\<close>
  when it throws. The body of the \<open>try\<close>: whatever is thrown there, by \<open>JSON.parse\<close> or
  by \<open>geminiChunk.candidates\<close> on a parsed \<open>null\<close>, is caught and ignored.
\<close>

definition try_frame :: "(jsstring \<Rightarrow> js option) \<Rightarrow> jsstring \<Rightarrow> closure \<Rightarrow> closure" where
  "try_frame parse jsonString st =
     (case parse jsonString of
        None \<Rightarrow> st
      | Some geminiChunk \<Rightarrow>
          (case first_text geminiChunk of
             Inl e \<Rightarrow> st
           | Inr t \<Rightarrow>
               (let content = or_else t (JStr []) in
                if truthy content
                then res_write (DataChunk (make_chunk st (Some content) None))
                       (st\<lparr>hasSentContent := True\<rparr>)
                else st)))"

text \<open>One pass of the \<open>while\<close> loop, for a delimiter found at \<open>boundary\<close>.\<close>

definition take_frame :: "(jsstring \<Rightarrow> js option) \<Rightarrow> nat \<Rightarrow> closure \<Rightarrow> closure" where
  "take_frame parse boundary st =
     (let jsonString = strip_data_prefix (take boundary (buffer st))
      in try_frame parse jsonString (st\<lparr>buffer := drop (boundary + 2) (buffer st)\<rparr>))"

lemma indexOf_nn_bound: "indexOf_nn s = Some k \<Longrightarrow> k + 2 \<le> length s"
  by (induction s arbitrary: k rule: indexOf_nn.induct) (auto split: if_splits)

lemma buffer_try_frame [simp]: "buffer (try_frame parse j st) = buffer st"
  by (simp add: try_frame_def res_write_def Let_def split: option.splits sum.splits)

function drain :: "(jsstring \<Rightarrow> js option) \<Rightarrow> closure \<Rightarrow> closure" where
  "drain parse st =
     (case indexOf_nn (buffer st) of
        None \<Rightarrow> st
      | Some boundary \<Rightarrow> drain parse (take_frame parse boundary st))"
  by pat_completeness auto
termination
  by (relation "measure (\<lambda>(parse, st). length (buffer st))")
     (auto simp: take_frame_def dest: indexOf_nn_bound)

text \<open>The handlers of \<open>data\<close>, \<open>end\<close> and \<open>error\<close>. A chunk is given by its decoded text,
  \<open>chunk.toString()\<close>.\<close>

definition on_data :: "(jsstring \<Rightarrow> js option) \<Rightarrow> jsstring \<Rightarrow> closure \<Rightarrow> closure" where
  "on_data parse chunk st = drain parse (st\<lparr>buffer := buffer st @ chunk\<rparr>)"

definition on_end :: "closure \<Rightarrow> closure" where
  "on_end st =
     (let st1 = (if \<not> hasSentContent st
                 then res_write (DataChunk (make_chunk st (Some (JStr placeholder)) None)) st
                 else st);
          st2 = res_write (DataChunk (make_chunk st1 None (Some (str ''stop'')))) st1;
          st3 = res_write DataDone st2
      in res_end st3)"

definition on_error :: "closure \<Rightarrow> closure" where
  "on_error st = (if \<not> writableEnded st then res_end st else st)"

text \<open>
  A backend stream is the sequence of events it raises. The function returns what the
  closure has become once they have all been handled.
\<close>

datatype stream_event = Data jsstring | End | Error

fun emit :: "(jsstring \<Rightarrow> js option) \<Rightarrow> closure \<Rightarrow> stream_event \<Rightarrow> closure" where
  "emit parse st (Data chunk) = on_data parse chunk st"
| "emit parse st End = on_end st"
| "emit parse st Error = on_error st"

definition listening :: "jsstring \<Rightarrow> int \<Rightarrow> js \<Rightarrow> closure" where
  "listening rnd now model =
     \<lparr>buffer = [], hasSentContent = False, cl_id = fresh_id rnd, cl_created = seconds now,
      cl_model = model, written = [], writableEnded = False\<rparr>"

definition transformGeminiStreamToOpenAIStream ::
  "(jsstring \<Rightarrow> js option) \<Rightarrow> jsstring \<Rightarrow> int \<Rightarrow> stream_event list \<Rightarrow> js \<Rightarrow> closure" where
  "transformGeminiStreamToOpenAIStream parse rnd now geminiStream model =
     foldl (emit parse) (listening rnd now model) geminiStream"

text \<open>
  The frames of a text, as the loop cuts them: a frame ends at the first blank line after
  its start, and what follows the last blank line is not a frame yet.
\<close>

function frames_of :: "jsstring \<Rightarrow> jsstring list" where
  "frames_of s =
     (case indexOf_nn s of
        None \<Rightarrow> []
      | Some k \<Rightarrow> take k s # frames_of (drop (k + 2) s))"
  by pat_completeness auto
termination
  by (relation "measure length") (auto dest: indexOf_nn_bound)

function rest_of :: "jsstring \<Rightarrow> jsstring" where
  "rest_of s =
     (case indexOf_nn s of
        None \<Rightarrow> s
      | Some k \<Rightarrow> rest_of (drop (k + 2) s))"
  by pat_completeness auto
termination
  by (relation "measure length") (auto dest: indexOf_nn_bound)

text \<open>
  A frame is a text that has no blank line, also when a newline follows it: it has none
  inside and no newline at its end, so that in the frame followed by its delimiter the
  delimiter is the first blank line.
\<close>

definition is_frame :: "jsstring \<Rightarrow> bool" where
  "is_frame f = (indexOf_nn (f @ [0x0A]) = None)"

text \<open>
  What one frame contributes: the content of the chunk written for it, if one is written.
  \<open>frame_step\<close> is the part of a loop pass that follows the cut.
\<close>

definition frame_content :: "(jsstring \<Rightarrow> js option) \<Rightarrow> jsstring \<Rightarrow> js option" where
  "frame_content parse f =
     (case parse (strip_data_prefix f) of
        None \<Rightarrow> None
      | Some geminiChunk \<Rightarrow>
          (case first_text geminiChunk of
             Inl e \<Rightarrow> None
           | Inr t \<Rightarrow> if truthy t then Some t else None))"

definition frame_step :: "(jsstring \<Rightarrow> js option) \<Rightarrow> closure \<Rightarrow> jsstring \<Rightarrow> closure" where
  "frame_step parse st f = try_frame parse (strip_data_prefix f) st"

text \<open>
  The content chunk and the terminal chunk of an exchange, and what it is for an event to
  carry an identifier and a time stamp.
\<close>

definition content_chunk :: "jsstring \<Rightarrow> int \<Rightarrow> js \<Rightarrow> js \<Rightarrow> sse_event" where
  "content_chunk rnd now model c =
     DataChunk
       \<lparr>k_id = fresh_id rnd, k_object = str ''chat.completion.chunk'',
        k_created = seconds now, k_model = model,
        k_choices = [\<lparr>cc_index = 0, cc_delta = \<lparr>d_content = Some c\<rparr>,
                      cc_finish_reason = None\<rparr>]\<rparr>"

definition terminal_chunk :: "jsstring \<Rightarrow> int \<Rightarrow> js \<Rightarrow> sse_event" where
  "terminal_chunk rnd now model =
     DataChunk
       \<lparr>k_id = fresh_id rnd, k_object = str ''chat.completion.chunk'',
        k_created = seconds now, k_model = model,
        k_choices = [\<lparr>cc_index = 0, cc_delta = \<lparr>d_content = None\<rparr>,
                      cc_finish_reason = Some (str ''stop'')\<rparr>]\<rparr>"

fun carries :: "jsstring \<Rightarrow> int \<Rightarrow> sse_event \<Rightarrow> bool" where
  "carries i c (DataChunk k) = (k_id k = i \<and> k_created k = c)"
| "carries i c DataDone = True"

text \<open>A closure whose constants are \<open>i\<close> and \<open>c\<close> and whose response carries them in every chunk.\<close>

definition stamped :: "jsstring \<Rightarrow> int \<Rightarrow> closure \<Rightarrow> bool" where
  "stamped i c st = (cl_id st = i \<and> cl_created st = c \<and> list_all (carries i c) (written st))"

text \<open>The events of a backend stream that delivers the chunks \<open>cs\<close>.\<close>

definition delivering :: "jsstring list \<Rightarrow> stream_event list" where
  "delivering cs = map Data cs"


section \<open>A model of \<open>JSON.parse\<close>\<close>

text \<open>
  The grammar of JSON texts, for running the re-framer on a concrete stream; the
  properties of the re-framer hold for any \<open>parse\<close>. The recursion is on a bound of
  the number of nested calls, which twice the length of the text exceeds. A number is
  read as the exact value of its literal.
\<close>

definition json_ws :: "code_unit \<Rightarrow> bool" where
  "json_ws c = (c = 0x20 \<or> c = 0x09 \<or> c = 0x0A \<or> c = 0x0D)"

definition skip_ws :: "jsstring \<Rightarrow> jsstring" where
  "skip_ws s = dropWhile json_ws s"

definition is_digit :: "code_unit \<Rightarrow> bool" where
  "is_digit c = (0x30 \<le> c \<and> c \<le> 0x39)"

definition digit_val :: "code_unit \<Rightarrow> nat" where
  "digit_val c = unat c - 48"

definition hex_val :: "code_unit \<Rightarrow> nat option" where
  "hex_val c =
     (if 0x30 \<le> c \<and> c \<le> 0x39 then Some (unat c - 48)
      else if 0x41 \<le> c \<and> c \<le> 0x46 then Some (unat c - 55)
      else if 0x61 \<le> c \<and> c \<le> 0x66 then Some (unat c - 87)
      else None)"

definition hex4 :: "code_unit \<Rightarrow> code_unit \<Rightarrow> code_unit \<Rightarrow> code_unit \<Rightarrow> code_unit option" where
  "hex4 a b c d =
     (case (hex_val a, hex_val b, hex_val c, hex_val d) of
        (Some x, Some y, Some z, Some w) \<Rightarrow> Some (of_nat (((x * 16 + y) * 16 + z) * 16 + w))
      | _ \<Rightarrow> None)"

definition escape :: "code_unit \<Rightarrow> code_unit option" where
  "escape e =
     (if e = 0x22 then Some 0x22
      else if e = 0x5C then Some 0x5C
      else if e = 0x2F then Some 0x2F
      else if e = 0x62 then Some 0x08
      else if e = 0x66 then Some 0x0C
      else if e = 0x6E then Some 0x0A
      else if e = 0x72 then Some 0x0D
      else if e = 0x74 then Some 0x09
      else None)"

fun parse_chars :: "jsstring \<Rightarrow> jsstring \<Rightarrow> (jsstring \<times> jsstring) option" where
  "parse_chars [] acc = None"
| "parse_chars (c # s) acc =
     (if c = 0x22 then Some (acc, s)
      else if c = 0x5C then
        (case s of
           [] \<Rightarrow> None
         | e # s1 \<Rightarrow>
             if e = 0x75 then
               (case s1 of
                  a # b # c # d # s2 \<Rightarrow>
                    (case hex4 a b c d of
                       None \<Rightarrow> None
                     | Some u \<Rightarrow> parse_chars s2 (acc @ [u]))
                | _ \<Rightarrow> None)
             else
               (case escape e of
                  None \<Rightarrow> None
                | Some x \<Rightarrow> parse_chars s1 (acc @ [x])))
      else if c < 0x20 then None
      else parse_chars s (acc @ [c]))"

definition digits_value :: "jsstring \<Rightarrow> nat" where
  "digits_value ds = foldl (\<lambda>n d. 10 * n + digit_val d) 0 ds"

definition parse_int_part :: "jsstring \<Rightarrow> (nat \<times> jsstring) option" where
  "parse_int_part s =
     (case s of
        [] \<Rightarrow> None
      | c # r \<Rightarrow>
          if c = 0x30 then Some (0, r)
          else if is_digit c then Some (digits_value (takeWhile is_digit s), dropWhile is_digit s)
          else None)"

definition parse_frac :: "jsstring \<Rightarrow> (rat \<times> jsstring) option" where
  "parse_frac s =
     (case s of
        c # r \<Rightarrow>
          if c = 0x2E then
            (let ds = takeWhile is_digit r in
             if ds = [] then None
             else Some (of_nat (digits_value ds) / 10 ^ length ds, dropWhile is_digit r))
          else Some (0, s)
      | [] \<Rightarrow> Some (0, s))"

definition parse_exp :: "jsstring \<Rightarrow> (int \<times> jsstring) option" where
  "parse_exp s =
     (case s of
        c # r \<Rightarrow>
          if c = 0x65 \<or> c = 0x45 then
            (let neg = (case r of x # _ \<Rightarrow> x = 0x2D | [] \<Rightarrow> False);
                 r1 = (case r of x # t \<Rightarrow> if x = 0x2D \<or> x = 0x2B then t else r | [] \<Rightarrow> r);
                 ds = takeWhile is_digit r1
             in if ds = [] then None
                else Some (if neg then - int (digits_value ds) else int (digits_value ds),
                           dropWhile is_digit r1))
          else Some (0, s)
      | [] \<Rightarrow> Some (0, s))"

definition parse_number :: "jsstring \<Rightarrow> (rat \<times> jsstring) option" where
  "parse_number s =
     (let neg = (case s of c # _ \<Rightarrow> c = 0x2D | [] \<Rightarrow> False);
          s1 = (if neg then tl s else s)
      in case parse_int_part s1 of
           None \<Rightarrow> None
         | Some (i, s2) \<Rightarrow>
             (case parse_frac s2 of
                None \<Rightarrow> None
              | Some (f, s3) \<Rightarrow>
                  (case parse_exp s3 of
                     None \<Rightarrow> None
                   | Some (e, s4) \<Rightarrow>
                       Some ((if neg then -1 else 1) * (of_nat i + f)
                               * (if e < 0 then 1 / 10 ^ nat (- e) else 10 ^ nat e),
                             s4))))"

definition literal :: "string \<Rightarrow> js \<Rightarrow> jsstring \<Rightarrow> (js \<times> jsstring) option" where
  "literal w v s =
     (if take (length w) s = str w then Some (v, drop (length w) s) else None)"

fun put :: "jsstring \<Rightarrow> js \<Rightarrow> (jsstring \<times> js) list \<Rightarrow> (jsstring \<times> js) list" where
  "put k v [] = [(k, v)]"
| "put k v ((k', v') # kvs) = (if k = k' then (k, v) # kvs else (k', v') # put k v kvs)"

fun parse_value :: "nat \<Rightarrow> jsstring \<Rightarrow> (js \<times> jsstring) option"
  and parse_elements :: "nat \<Rightarrow> jsstring \<Rightarrow> js list \<Rightarrow> (js \<times> jsstring) option"
  and parse_members :: "nat \<Rightarrow> jsstring \<Rightarrow> (jsstring \<times> js) list \<Rightarrow> (js \<times> jsstring) option"
where
  "parse_value 0 s = None"
| "parse_value (Suc n) s =
     (case skip_ws s of
        [] \<Rightarrow> None
      | c # r \<Rightarrow>
          if c = 0x7B then
            (case skip_ws r of
               [] \<Rightarrow> None
             | d # r1 \<Rightarrow> if d = 0x7D then Some (JObj [], r1) else parse_members n r [])
          else if c = 0x5B then
            (case skip_ws r of
               [] \<Rightarrow> None
             | d # r1 \<Rightarrow> if d = 0x5D then Some (JArr [], r1) else parse_elements n r [])
          else if c = 0x22 then
            (case parse_chars r [] of None \<Rightarrow> None | Some (t, r1) \<Rightarrow> Some (JStr t, r1))
          else if c = 0x74 then literal ''true'' (JBool True) (c # r)
          else if c = 0x66 then literal ''false'' (JBool False) (c # r)
          else if c = 0x6E then literal ''null'' JNull (c # r)
          else (case parse_number (c # r) of None \<Rightarrow> None | Some (x, r1) \<Rightarrow> Some (JNum x, r1)))"
| "parse_elements 0 s acc = None"
| "parse_elements (Suc n) s acc =
     (case parse_value n s of
        None \<Rightarrow> None
      | Some (v, r) \<Rightarrow>
          (case skip_ws r of
             [] \<Rightarrow> None
           | c # r1 \<Rightarrow>
               if c = 0x2C then parse_elements n r1 (acc @ [v])
               else if c = 0x5D then Some (JArr (acc @ [v]), r1)
               else None))"
| "parse_members 0 s acc = None"
| "parse_members (Suc n) s acc =
     (case skip_ws s of
        [] \<Rightarrow> None
      | q # r \<Rightarrow>
          if q \<noteq> 0x22 then None
          else
            (case parse_chars r [] of
               None \<Rightarrow> None
             | Some (k, r1) \<Rightarrow>
                 (case skip_ws r1 of
                    [] \<Rightarrow> None
                  | c # r2 \<Rightarrow>
                      if c \<noteq> 0x3A then None
                      else
                        (case parse_value n r2 of
                           None \<Rightarrow> None
                         | Some (v, r3) \<Rightarrow>
                             (case skip_ws r3 of
                                [] \<Rightarrow> None
                              | d # r4 \<Rightarrow>
                                  if d = 0x2C then parse_members n r4 (put k v acc)
                                  else if d = 0x7D then Some (JObj (put k v acc), r4)
                                  else None)))))"

definition JSON_parse :: "jsstring \<Rightarrow> js option" where
  "JSON_parse s =
     (case parse_value (2 * length s + 2) s of
        None \<Rightarrow> None
      | Some (v, r) \<Rightarrow> if skip_ws r = [] then Some v else None)"


section \<open>The chat-completion route of the deployment that has no streaming\<close>

text \<open>
  The handler of \<open>POST /v1/chat/completions\<close> in \<open>part_001\<close>. A request is its
  \<open>authorization\<close> header, if it has one, and its parsed body. \<open>axios.post\<close> is a
  parameter: it answers a call with the backend's response data, or rejects with an error
  that may hold the backend's status and data. The URL of a call is given by the two
  values put into it. The handler's result is its reply and the backend calls it made.
\<close>

record request =
  authorization :: "jsstring option"
  body :: js

definition getApiKey :: "request \<Rightarrow> jsstring option" where
  "getApiKey request =
     (case authorization request of
        None \<Rightarrow> None
      | Some authHeader \<Rightarrow>
          if authHeader = [] \<or> take 7 authHeader \<noteq> str ''Bearer '' then None
          else Some (drop 7 authHeader))"

datatype reply_body =
    ErrorMessage jsstring
  | ErrorMessageCode js int
  | ChatCompletion chatResponse

record reply =
  status :: int
  json :: reply_body

record backend_call =
  url_model :: js
  url_key :: jsstring
  call_body :: geminiRequest

datatype axios_result = Response js | Rejected "(int \<times> js) option"

text \<open>The \<open>catch\<close> block; \<open>None\<close> is an error without a \<open>response\<close>.\<close>

definition caught :: "(int \<times> js) option \<Rightarrow> reply" where
  "caught r =
     (case r of
        None \<Rightarrow>
          \<lparr>status = 500,
           json = ErrorMessageCode (JStr (str ''An internal error occurred in the proxy.'')) 500\<rparr>
      | Some (st, data) \<Rightarrow> \<lparr>status = st, json = ErrorMessageCode data st\<rparr>)"

definition chat_completions_vercel ::
  "(backend_call \<Rightarrow> axios_result) \<Rightarrow> jsstring \<Rightarrow> int \<Rightarrow> request \<Rightarrow> reply \<times> backend_call list" where
  "chat_completions_vercel axios_post rnd now req =
     (case getApiKey req of
        None \<Rightarrow>
          (\<lparr>status = 401,
            json = ErrorMessage (str ''Authorization header is missing or invalid.'')\<rparr>, [])
      | Some apiKey \<Rightarrow>
          if apiKey = [] then
            (\<lparr>status = 401,
              json = ErrorMessage (str ''Authorization header is missing or invalid.'')\<rparr>, [])
          else
            (case member (body req) (str ''stream'') of
               Inl e \<Rightarrow> (caught None, [])
             | Inr stream \<Rightarrow>
                 if truthy stream then
                   (\<lparr>status = 400,
                     json = ErrorMessage
                       (str ''Streaming is not supported in this Vercel deployment.'')\<rparr>, [])
                 else
                   (case openaiToGeminiRequest (body req) of
                      Inl e \<Rightarrow> (caught None, [])
                    | Inr geminiRequest \<Rightarrow>
                        (case member (body req) (str ''model'') of
                           Inl e \<Rightarrow> (caught None, [])
                         | Inr m \<Rightarrow>
                             (let model = or_else m (JStr (str ''gemini-1.5-flash''));
                                  call = \<lparr>url_model = model, url_key = apiKey,
                                          call_body = geminiRequest\<rparr>
                              in case axios_post call of
                                   Rejected r \<Rightarrow> (caught r, [call])
                                 | Response data \<Rightarrow>
                                     (case geminiToOpenAIResponse_plain rnd now data model of
                                        Inl e \<Rightarrow> (caught None, [call])
                                      | Inr openaiResponse \<Rightarrow>
                                          (\<lparr>status = 200,
                                            json = ChatCompletion openaiResponse\<rparr>,
                                           [call])))))))"

text \<open>A backend that cannot be reached: every call is rejected without a response.\<close>

definition backend_down :: "backend_call \<Rightarrow> axios_result" where
  "backend_down call = Rejected None"


section \<open>Properties of the request mapper\<close>

lemma push_message_object:
  "is_object m \<Longrightarrow> push_message m = Inr (mapped_message m)"
  by (cases m) (simp_all add: is_object_def push_message_def member_def mapped_message_def
      mapped_role_def)

lemma push_messages_objects:
  "list_all is_object ms \<Longrightarrow> push_messages ms acc = Inr (acc @ map mapped_message ms)"
  by (induction ms arbitrary: acc) (simp_all add: push_message_object)

lemma openaiToGeminiRequest_chat_request:
  assumes "chat_request req ms"
  shows "openaiToGeminiRequest req =
     Inr \<lparr>contents = map mapped_message ms,
          generationConfig =
            \<lparr>maxOutputTokens = copy_if_truthy (get req (str ''max_tokens'')),
             temperature = copy_if_truthy (get req (str ''temperature''))\<rparr>,
          safetySettings = safety_settings\<rparr>"
proof -
  from assms obtain kvs where req: "req = JObj kvs"
    by (cases req) (simp_all add: chat_request_def is_object_def)
  from assms have ms: "get req (str ''messages'') = JArr ms" and objs: "list_all is_object ms"
    by (simp_all add: chat_request_def)
  have m: "member req k = Inr (get req k)" for k
    by (simp add: req member_def)
  show ?thesis
    by (simp add: openaiToGeminiRequest_def m ms push_messages_objects [OF objs])
qed

text \<open>
  C1. For a ChatRequest, a JSON object whose \<open>messages\<close> is an array of message objects,
  \<open>openaiToGeminiRequest\<close> returns a request with one content entry per message, in the
  order of the messages: the entry of a message has the role \<open>model\<close> when the message's
  role is the string \<open>assistant\<close> and the role \<open>user\<close> for any other role, and its parts
  are the single text part holding the message's content.
\<close>

theorem map_request_messages:
  assumes "chat_request req ms"
  shows "\<exists>g. openaiToGeminiRequest req = Inr g
           \<and> length (contents g) = length ms
           \<and> (\<forall>i < length ms.
                 c_role (contents g ! i) =
                   (if get (ms ! i) (str ''role'') = JStr (str ''assistant'')
                    then str ''model'' else str ''user'')
                 \<and> c_parts (contents g ! i) = [\<lparr>p_text = get (ms ! i) (str ''content'')\<rparr>])"
  using openaiToGeminiRequest_chat_request [OF assms]
  by (simp add: mapped_message_def mapped_role_def)

theorem map_request_messages_witness:
  "chat_request
     (JObj [(str ''messages'',
             JArr [JObj [(str ''role'', JStr (str ''system'')), (str ''content'', JStr (str ''a''))],
                   JObj [(str ''role'', JStr (str ''assistant'')), (str ''content'', JStr (str ''b''))],
                   JObj [(str ''role'', JStr (str ''user'')), (str ''content'', JStr (str ''c''))]])])
     [JObj [(str ''role'', JStr (str ''system'')), (str ''content'', JStr (str ''a''))],
      JObj [(str ''role'', JStr (str ''assistant'')), (str ''content'', JStr (str ''b''))],
      JObj [(str ''role'', JStr (str ''user'')), (str ''content'', JStr (str ''c''))]]
   \<and> (\<exists>g. openaiToGeminiRequest
              (JObj [(str ''messages'',
                 JArr [JObj [(str ''role'', JStr (str ''system'')), (str ''content'', JStr (str ''a''))],
                       JObj [(str ''role'', JStr (str ''assistant'')), (str ''content'', JStr (str ''b''))],
                       JObj [(str ''role'', JStr (str ''user'')), (str ''content'', JStr (str ''c''))]])])
              = Inr g
            \<and> length (contents g) = 3
            \<and> map c_role (contents g) = [str ''user'', str ''model'', str ''user'']
            \<and> map c_parts (contents g) =
                [[\<lparr>p_text = JStr (str ''a'')\<rparr>], [\<lparr>p_text = JStr (str ''b'')\<rparr>],
                 [\<lparr>p_text = JStr (str ''c'')\<rparr>]])"
proof -
  let ?m0 = "JObj [(str ''role'', JStr (str ''system'')), (str ''content'', JStr (str ''a''))]"
  let ?m1 = "JObj [(str ''role'', JStr (str ''assistant'')), (str ''content'', JStr (str ''b''))]"
  let ?m2 = "JObj [(str ''role'', JStr (str ''user'')), (str ''content'', JStr (str ''c''))]"
  let ?ms = "[?m0, ?m1, ?m2]"
  let ?req = "JObj [(str ''messages'', JArr ?ms)]"
  have h: "chat_request ?req ?ms"
    by (simp add: chat_request_def is_object_def)
  from map_request_messages [OF h] obtain g where
    g: "openaiToGeminiRequest ?req = Inr g" and len: "length (contents g) = 3" and
    each: "\<forall>i < 3. c_role (contents g ! i) =
                   (if get (?ms ! i) (str ''role'') = JStr (str ''assistant'')
                    then str ''model'' else str ''user'')
                 \<and> c_parts (contents g ! i) = [\<lparr>p_text = get (?ms ! i) (str ''content'')\<rparr>]"
    by auto
  from len obtain a b c where abc: "contents g = [a, b, c]"
    by (auto simp: length_Suc_conv numeral_3_eq_3)
  from each have "c_role a = str ''user''" "c_parts a = [\<lparr>p_text = JStr (str ''a'')\<rparr>]"
    using abc by (auto simp: str_def dest: spec [of _ 0])
  moreover from each have "c_role b = str ''model''" "c_parts b = [\<lparr>p_text = JStr (str ''b'')\<rparr>]"
    using abc by (auto simp: str_def dest: spec [of _ 1])
  moreover from each have "c_role c = str ''user''" "c_parts c = [\<lparr>p_text = JStr (str ''c'')\<rparr>]"
    using abc by (auto simp: str_def dest: spec [of _ 2])
  ultimately show ?thesis
    using h g len abc by simp
qed

text \<open>
  C2. For a ChatRequest, the \<open>generationConfig\<close> of the request that
  \<open>openaiToGeminiRequest\<close> returns has \<open>maxOutputTokens\<close> equal to \<open>max_tokens\<close> when
  \<open>max_tokens\<close> is truthy and has no \<open>maxOutputTokens\<close> otherwise, in particular when
  \<open>max_tokens\<close> is 0 and when it is absent; \<open>temperature\<close> follows the same rule.
\<close>

theorem map_request_generation_config:
  assumes "chat_request req ms"
  shows "\<exists>g. openaiToGeminiRequest req = Inr g
           \<and> maxOutputTokens (generationConfig g) =
               (if truthy (get req (str ''max_tokens'')) then Some (get req (str ''max_tokens''))
                else None)
           \<and> temperature (generationConfig g) =
               (if truthy (get req (str ''temperature'')) then Some (get req (str ''temperature''))
                else None)
           \<and> (get req (str ''max_tokens'') = JNum 0 \<or> get req (str ''max_tokens'') = JUndefined
                \<longrightarrow> maxOutputTokens (generationConfig g) = None)
           \<and> (get req (str ''temperature'') = JNum 0 \<or> get req (str ''temperature'') = JUndefined
                \<longrightarrow> temperature (generationConfig g) = None)"
  using openaiToGeminiRequest_chat_request [OF assms]
  by (auto simp: copy_if_truthy_def)

theorem map_request_generation_config_witness:
  "chat_request
     (JObj [(str ''messages'', JArr [JObj [(str ''role'', JStr (str ''user''))]]),
            (str ''max_tokens'', JNum 0), (str ''temperature'', JNum (7 / 10))])
     [JObj [(str ''role'', JStr (str ''user''))]]
   \<and> (\<exists>g. openaiToGeminiRequest
              (JObj [(str ''messages'', JArr [JObj [(str ''role'', JStr (str ''user''))]]),
                     (str ''max_tokens'', JNum 0), (str ''temperature'', JNum (7 / 10))])
              = Inr g
            \<and> maxOutputTokens (generationConfig g) = None
            \<and> temperature (generationConfig g) = Some (JNum (7 / 10)))"
proof -
  let ?ms = "[JObj [(str ''role'', JStr (str ''user''))]]"
  let ?req = "JObj [(str ''messages'', JArr ?ms),
                    (str ''max_tokens'', JNum 0), (str ''temperature'', JNum (7 / 10))]"
  have h: "chat_request ?req ?ms"
    by (simp add: chat_request_def is_object_def)
  have mt: "get ?req (str ''max_tokens'') = JNum 0"
    by (simp add: str_def)
  have t: "get ?req (str ''temperature'') = JNum (7 / 10)"
    by (simp add: str_def)
  from map_request_generation_config [OF h] show ?thesis
    using h unfolding mt t by auto
qed


section \<open>Properties of the single-shot response translator\<close>

lemma trim_empty_iff: "trim s = [] \<longleftrightarrow> list_all is_white_space s"
proof
  assume "trim s = []"
  then have a: "\<forall>c \<in> set (dropWhile is_white_space s). is_white_space c"
    by (simp add: trim_def dropWhile_eq_Nil_conv)
  have "dropWhile is_white_space s = []"
  proof (rule ccontr)
    assume n: "dropWhile is_white_space s \<noteq> []"
    then have "\<not> is_white_space (hd (dropWhile is_white_space s))"
      by (rule hd_dropWhile)
    moreover from n have "hd (dropWhile is_white_space s) \<in> set (dropWhile is_white_space s)"
      by simp
    ultimately show False using a by blast
  qed
  then show "list_all is_white_space s"
    by (simp add: dropWhile_eq_Nil_conv list_all_iff)
next
  assume "list_all is_white_space s"
  then have "dropWhile is_white_space s = []"
    by (simp add: dropWhile_eq_Nil_conv list_all_iff)
  then show "trim s = []"
    by (simp add: trim_def del: dropWhile_eq_Nil_conv)
qed

lemma first_text_not_nullish: "first_text r = Inr t \<Longrightarrow> \<not> nullish r"
  by (auto simp: first_text_def member_def split: if_splits)

lemma response_object_Inr:
  assumes "\<not> nullish r"
  shows "\<exists>resp. response_object rnd now r model c = Inr resp
           \<and> message_content resp = Some c
           \<and> r_id resp = fresh_id rnd \<and> r_created resp = seconds now"
  using assms
  by (simp add: response_object_def usage_count_def member_def message_content_def)

lemma placeholder_not_blank: "\<not> list_all is_white_space placeholder"
  by (simp add: placeholder_def is_white_space_def)

lemma first_text_example:
  "first_text
     (JObj [(str ''candidates'',
             JArr [JObj [(str ''content'',
                          JObj [(str ''parts'', JArr [JObj [(str ''text'', JStr s)]])])]])])
   = Inr (JStr s)"
  by (simp add: first_text_def member_def opt_member_def opt_index0_def str_def)

text \<open>
  C3. For a backend response whose extracted text
  (\<open>candidates[0].content.parts[0].text\<close>, or the empty string in its place) is a string
  that is empty or has only white space, the translator with the fallback-content policy
  returns a response whose \<open>choices[0].message.content\<close> is the placeholder, and the
  translator without the policy returns one whose content is the extracted string itself.
\<close>

theorem map_response_blank:
  assumes "first_text r = Inr t" and "or_else t (JStr []) = JStr s"
    and "list_all is_white_space s"
  shows "(\<exists>resp. geminiToOpenAIResponse rnd now r model = Inr resp
            \<and> message_content resp = Some (JStr placeholder))
       \<and> (\<exists>resp. geminiToOpenAIResponse_plain rnd now r model = Inr resp
            \<and> message_content resp = Some (JStr s))"
proof -
  from assms(1) have r: "\<not> nullish r"
    by (rule first_text_not_nullish)
  from assms(3) have t: "trim s = []"
    by (simp add: trim_empty_iff)
  from response_object_Inr [OF r, of rnd now model "JStr placeholder"]
  have "\<exists>resp. geminiToOpenAIResponse rnd now r model = Inr resp
            \<and> message_content resp = Some (JStr placeholder)"
    by (auto simp: geminiToOpenAIResponse_def assms(1,2) t)
  moreover from response_object_Inr [OF r, of rnd now model "JStr s"]
  have "\<exists>resp. geminiToOpenAIResponse_plain rnd now r model = Inr resp
            \<and> message_content resp = Some (JStr s)"
    by (auto simp: geminiToOpenAIResponse_plain_def assms(1,2))
  ultimately show ?thesis by blast
qed

theorem map_response_blank_witness:
  "first_text
     (JObj [(str ''candidates'',
             JArr [JObj [(str ''content'',
                          JObj [(str ''parts'',
                                 JArr [JObj [(str ''text'', JStr [0x20, 0x0A])]])])]])])
   = Inr (JStr [0x20, 0x0A])
   \<and> or_else (JStr [0x20, 0x0A]) (JStr []) = JStr [0x20, 0x0A]
   \<and> list_all is_white_space [0x20, 0x0A]
   \<and> (\<exists>resp. geminiToOpenAIResponse [] 0
          (JObj [(str ''candidates'',
             JArr [JObj [(str ''content'',
                          JObj [(str ''parts'',
                                 JArr [JObj [(str ''text'', JStr [0x20, 0x0A])]])])]])])
          JNull = Inr resp
        \<and> message_content resp = Some (JStr placeholder))
   \<and> (\<exists>resp. geminiToOpenAIResponse_plain [] 0
          (JObj [(str ''candidates'',
             JArr [JObj [(str ''content'',
                          JObj [(str ''parts'',
                                 JArr [JObj [(str ''text'', JStr [0x20, 0x0A])]])])]])])
          JNull = Inr resp
        \<and> message_content resp = Some (JStr [0x20, 0x0A]))"
proof -
  let ?r = "JObj [(str ''candidates'',
             JArr [JObj [(str ''content'',
                          JObj [(str ''parts'',
                                 JArr [JObj [(str ''text'', JStr [0x20, 0x0A])]])])]])]"
  have a: "first_text ?r = Inr (JStr [0x20, 0x0A])"
    by (rule first_text_example)
  have b: "or_else (JStr [0x20, 0x0A]) (JStr []) = JStr [0x20, 0x0A]"
    by (simp add: or_else_def)
  have c: "list_all is_white_space [0x20, 0x0A]"
    by (simp add: is_white_space_def)
  from map_response_blank [OF a b c, of "[]" 0 JNull] show ?thesis
    using a b c by blast
qed

text \<open>
  C8. For a backend response whose \<open>candidates[0].content.parts[0].text\<close> is the string
  \<open>hello\<close>, both variants of the translator return a response whose
  \<open>choices[0].message.content\<close> is \<open>hello\<close>.
\<close>

theorem map_response_round_trip:
  assumes "first_text r = Inr (JStr (str ''hello''))"
  shows "(\<exists>resp. geminiToOpenAIResponse rnd now r model = Inr resp
            \<and> message_content resp = Some (JStr (str ''hello'')))
       \<and> (\<exists>resp. geminiToOpenAIResponse_plain rnd now r model = Inr resp
            \<and> message_content resp = Some (JStr (str ''hello'')))"
proof -
  from assms have r: "\<not> nullish r"
    by (rule first_text_not_nullish)
  have o: "or_else (JStr (str ''hello'')) (JStr []) = JStr (str ''hello'')"
    by (simp add: or_else_def str_def)
  have t: "trim (str ''hello'') \<noteq> []"
    by (simp add: trim_empty_iff str_def is_white_space_def)
  from response_object_Inr [OF r, of rnd now model "JStr (str ''hello'')"]
  show ?thesis
    by (auto simp: geminiToOpenAIResponse_def geminiToOpenAIResponse_plain_def assms o t)
qed

theorem map_response_round_trip_witness:
  "first_text
     (JObj [(str ''candidates'',
             JArr [JObj [(str ''content'',
                          JObj [(str ''parts'',
                                 JArr [JObj [(str ''text'', JStr (str ''hello''))]])])]])])
   = Inr (JStr (str ''hello''))
   \<and> (\<exists>resp. geminiToOpenAIResponse [] 0
          (JObj [(str ''candidates'',
             JArr [JObj [(str ''content'',
                          JObj [(str ''parts'',
                                 JArr [JObj [(str ''text'', JStr (str ''hello''))]])])]])])
          JNull = Inr resp
        \<and> message_content resp = Some (JStr (str ''hello'')))
   \<and> (\<exists>resp. geminiToOpenAIResponse_plain [] 0
          (JObj [(str ''candidates'',
             JArr [JObj [(str ''content'',
                          JObj [(str ''parts'',
                                 JArr [JObj [(str ''text'', JStr (str ''hello''))]])])]])])
          JNull = Inr resp
        \<and> message_content resp = Some (JStr (str ''hello'')))"
proof -
  let ?r = "JObj [(str ''candidates'',
             JArr [JObj [(str ''content'',
                          JObj [(str ''parts'',
                                 JArr [JObj [(str ''text'', JStr (str ''hello''))]])])]])]"
  have a: "first_text ?r = Inr (JStr (str ''hello''))"
    by (rule first_text_example)
  from map_response_round_trip [OF a, of "[]" 0 JNull] show ?thesis
    using a by blast
qed

text \<open>
  C10. In the variant with the fallback-content policy, for a GenerationResponse (a JSON
  object whose first text, where there is one, is a string; it may have no candidates at
  all) the translator returns a response whose \<open>choices[0].message.content\<close> is a string
  that is neither empty nor all white space: it is the placeholder, or it is the
  backend's text.
\<close>

theorem map_response_never_blank:
  assumes "generation_response r"
  shows "\<exists>resp s. geminiToOpenAIResponse rnd now r model = Inr resp
           \<and> message_content resp = Some (JStr s)
           \<and> \<not> list_all is_white_space s
           \<and> (s = placeholder \<or> first_text r = Inr (JStr s))"
proof -
  from assms have obj: "is_object r"
    by (simp add: generation_response_def)
  then have r: "\<not> nullish r"
    by (cases r) (simp_all add: is_object_def)
  then obtain t where t: "first_text r = Inr t"
    by (simp add: first_text_def member_def)
  with assms have shape: "t = JUndefined \<or> (\<exists>s. t = JStr s)"
    by (auto simp: generation_response_def split: js.splits)
  then have "\<exists>s. or_else t (JStr []) = JStr s \<and> (s \<noteq> [] \<longrightarrow> t = JStr s)"
    by (auto simp: or_else_def)
  then obtain s where s: "or_else t (JStr []) = JStr s" and
    same: "s \<noteq> [] \<longrightarrow> t = JStr s"
    by blast
  show ?thesis
  proof (cases "list_all is_white_space s")
    case True
    then have "trim s = []" by (simp add: trim_empty_iff)
    then have "geminiToOpenAIResponse rnd now r model =
        response_object rnd now r model (JStr placeholder)"
      by (simp add: geminiToOpenAIResponse_def t s)
    with response_object_Inr [OF r, of rnd now model "JStr placeholder"]
    show ?thesis
      using placeholder_not_blank by auto
  next
    case False
    then have "trim s \<noteq> []" by (simp add: trim_empty_iff)
    then have "geminiToOpenAIResponse rnd now r model =
        response_object rnd now r model (JStr s)"
      by (simp add: geminiToOpenAIResponse_def t s)
    moreover from False have "s \<noteq> []" by auto
    with same have "first_text r = Inr (JStr s)" by (simp add: t)
    ultimately show ?thesis
      using response_object_Inr [OF r, of rnd now model "JStr s"] False
      by auto
  qed
qed

theorem map_response_never_blank_witness:
  "generation_response (JObj [])
   \<and> (\<exists>resp s. geminiToOpenAIResponse [] 0 (JObj []) JNull = Inr resp
          \<and> message_content resp = Some (JStr s)
          \<and> \<not> list_all is_white_space s
          \<and> (s = placeholder \<or> first_text (JObj []) = Inr (JStr s)))"
proof -
  have a: "generation_response (JObj [])"
    by (simp add: generation_response_def is_object_def first_text_def member_def
        opt_member_def opt_index0_def)
  from map_response_never_blank [OF a, of "[]" 0 JNull] show ?thesis
    using a by blast
qed


section \<open>Properties of the stream re-framer\<close>

text \<open>
  The loop of the \<open>data\<close> handler cuts the buffer into its frames and keeps the rest, and
  what a sequence of chunks leaves behind depends on their concatenation only.
\<close>

declare drain.simps [simp del] frames_of.simps [simp del] rest_of.simps [simp del]

lemma try_frame_buffer_update:
  "try_frame parse j (st\<lparr>buffer := b\<rparr>) = (try_frame parse j st)\<lparr>buffer := b\<rparr>"
  by (simp add: try_frame_def res_write_def make_chunk_def Let_def
      split: option.splits sum.splits)

lemma frame_steps_buffer_update:
  "foldl (frame_step parse) (st\<lparr>buffer := b\<rparr>) fs = (foldl (frame_step parse) st fs)\<lparr>buffer := b\<rparr>"
  by (induction fs arbitrary: st) (simp_all add: frame_step_def try_frame_buffer_update)

lemma drain_frames:
  "drain parse st =
     (foldl (frame_step parse) st (frames_of (buffer st)))\<lparr>buffer := rest_of (buffer st)\<rparr>"
proof (induction parse st rule: drain.induct)
  case (1 parse st)
  show ?case
  proof (cases "indexOf_nn (buffer st)")
    case None
    then show ?thesis
      by (simp add: drain.simps [of parse st] frames_of.simps [of "buffer st"]
          rest_of.simps [of "buffer st"])
  next
    case (Some k)
    have "drain parse st = drain parse (take_frame parse k st)"
      by (simp add: drain.simps [of parse st] Some)
    also have "\<dots> = (foldl (frame_step parse) (take_frame parse k st)
         (frames_of (buffer (take_frame parse k st))))
           \<lparr>buffer := rest_of (buffer (take_frame parse k st))\<rparr>"
      using "1.IH" [OF Some] .
    also have "buffer (take_frame parse k st) = drop (k + 2) (buffer st)"
      by (simp add: take_frame_def)
    also have "take_frame parse k st =
        (frame_step parse st (take k (buffer st)))\<lparr>buffer := drop (k + 2) (buffer st)\<rparr>"
      by (simp add: take_frame_def frame_step_def try_frame_buffer_update)
    finally show ?thesis
      by (simp add: frames_of.simps [of "buffer st"] rest_of.simps [of "buffer st"] Some
          frame_steps_buffer_update)
  qed
qed

lemma indexOf_nn_append:
  "indexOf_nn x = Some k \<Longrightarrow> indexOf_nn (x @ y) = Some k"
  by (induction x arbitrary: k rule: indexOf_nn.induct) (auto split: if_splits)

lemma indexOf_nn_prefix_None:
  "indexOf_nn (x @ y) = None \<Longrightarrow> indexOf_nn x = None"
  using indexOf_nn_append [of x _ y] by (cases "indexOf_nn x") auto

lemma indexOf_nn_rest_of [simp]: "indexOf_nn (rest_of s) = None"
proof (induction s rule: rest_of.induct)
  case (1 s)
  then show ?case
    by (cases "indexOf_nn s") (simp_all add: rest_of.simps [of s])
qed

lemma frames_of_None: "indexOf_nn s = None \<Longrightarrow> frames_of s = []"
  by (simp add: frames_of.simps [of s])

lemma rest_of_None: "indexOf_nn s = None \<Longrightarrow> rest_of s = s"
  by (simp add: rest_of.simps [of s])

lemma frames_rest_append:
  "frames_of (x @ y) = frames_of x @ frames_of (rest_of x @ y)
   \<and> rest_of (x @ y) = rest_of (rest_of x @ y)"
proof (induction x rule: frames_of.induct)
  case (1 s)
  show ?case
  proof (cases "indexOf_nn s")
    case None
    then show ?thesis
      by (simp add: frames_of_None rest_of_None)
  next
    case (Some k)
    then have k: "k + 2 \<le> length s"
      by (rule indexOf_nn_bound)
    from Some have sy: "indexOf_nn (s @ y) = Some k"
      by (rule indexOf_nn_append)
    from "1.IH" [OF Some] k show ?thesis
      by (simp add: frames_of.simps [of s] frames_of.simps [of "s @ y"]
          rest_of.simps [of s] rest_of.simps [of "s @ y"] Some sy)
  qed
qed

lemma deliver_frames:
  "indexOf_nn (buffer st) = None \<Longrightarrow>
   foldl (emit parse) st (delivering cs) =
     (foldl (frame_step parse) st (frames_of (buffer st @ concat cs)))
       \<lparr>buffer := rest_of (buffer st @ concat cs)\<rparr>"
proof (induction cs arbitrary: st)
  case Nil
  then show ?case
    by (simp add: delivering_def frames_of_None rest_of_None)
next
  case (Cons c cs)
  let ?st = "on_data parse c st"
  have st: "?st = (foldl (frame_step parse) st (frames_of (buffer st @ c)))
       \<lparr>buffer := rest_of (buffer st @ c)\<rparr>"
    by (simp add: on_data_def drain_frames frame_steps_buffer_update)
  then have b: "buffer ?st = rest_of (buffer st @ c)"
    by simp
  then have "indexOf_nn (buffer ?st) = None"
    by simp
  from Cons.IH [OF this]
  have "foldl (emit parse) ?st (delivering cs) =
     (foldl (frame_step parse) ?st (frames_of (rest_of (buffer st @ c) @ concat cs)))
       \<lparr>buffer := rest_of (rest_of (buffer st @ c) @ concat cs)\<rparr>"
    by (simp only: b)
  moreover have "foldl (emit parse) st (delivering (c # cs)) = foldl (emit parse) ?st (delivering cs)"
    by (simp add: delivering_def)
  moreover have "frames_of (buffer st @ c @ concat cs) =
      frames_of (buffer st @ c) @ frames_of (rest_of (buffer st @ c) @ concat cs)"
    and "rest_of (buffer st @ c @ concat cs) = rest_of (rest_of (buffer st @ c) @ concat cs)"
    using frames_rest_append [of "buffer st @ c" "concat cs"] by simp_all
  ultimately show ?case
    by (simp add: st frame_steps_buffer_update)
qed

text \<open>What the frames of the data phase leave in the closure.\<close>

lemma frame_step_open:
  assumes "\<not> writableEnded st"
  shows "frame_step parse st f =
     (case frame_content parse f of
        None \<Rightarrow> st
      | Some c \<Rightarrow>
          st\<lparr>hasSentContent := True,
             written := written st @ [DataChunk (make_chunk st (Some c) None)]\<rparr>)"
  using assms
  by (auto simp: frame_step_def try_frame_def frame_content_def res_write_def or_else_def
      make_chunk_def Let_def split: option.splits sum.splits)

lemma frame_steps_open:
  assumes "\<not> writableEnded st"
  shows "foldl (frame_step parse) st fs =
     st\<lparr>hasSentContent := hasSentContent st \<or> List.map_filter (frame_content parse) fs \<noteq> [],
        written := written st @
          map (\<lambda>c. DataChunk (make_chunk st (Some c) None))
            (List.map_filter (frame_content parse) fs)\<rparr>"
  using assms
proof (induction fs arbitrary: st)
  case Nil
  then show ?case by (simp add: List.map_filter_simps)
next
  case (Cons f fs)
  show ?case
  proof (cases "frame_content parse f")
    case None
    with Cons show ?thesis
      by (simp add: frame_step_open List.map_filter_simps)
  next
    case (Some c)
    let ?st = "st\<lparr>hasSentContent := True,
             written := written st @ [DataChunk (make_chunk st (Some c) None)]\<rparr>"
    have "\<not> writableEnded ?st" using Cons.prems by simp
    from Cons.IH [OF this] Cons.prems Some show ?thesis
      by (simp add: frame_step_open List.map_filter_simps make_chunk_def)
  qed
qed

lemma make_chunk_listening:
  "DataChunk (make_chunk (listening rnd now model) (Some c) None) = content_chunk rnd now model c"
  by (simp add: make_chunk_def listening_def content_chunk_def)

lemma data_phase:
  "transformGeminiStreamToOpenAIStream parse rnd now (delivering cs) model =
     (listening rnd now model)
       \<lparr>buffer := rest_of (concat cs),
        hasSentContent := List.map_filter (frame_content parse) (frames_of (concat cs)) \<noteq> [],
        written := map (content_chunk rnd now model)
                     (List.map_filter (frame_content parse) (frames_of (concat cs)))\<rparr>"
proof -
  have o: "\<not> writableEnded (listening rnd now model)"
    and b: "buffer (listening rnd now model) = []"
    and w: "written (listening rnd now model) = []"
    and h: "hasSentContent (listening rnd now model) = False"
    by (simp_all add: listening_def)
  have "indexOf_nn (buffer (listening rnd now model)) = None"
    by (simp add: b)
  from deliver_frames [OF this, of parse cs] show ?thesis
    unfolding transformGeminiStreamToOpenAIStream_def
    by (simp add: frame_steps_open [OF o] b w h make_chunk_listening)
qed

lemma on_end_open:
  assumes "\<not> writableEnded st"
  shows "on_end st =
     st\<lparr>written := written st
            @ (if hasSentContent st then []
               else [DataChunk (make_chunk st (Some (JStr placeholder)) None)])
            @ [DataChunk (make_chunk st None (Some (str ''stop''))), DataDone],
        writableEnded := True\<rparr>"
  using assms
  by (simp add: on_end_def res_write_def res_end_def make_chunk_def Let_def)

lemma stream_end:
  "transformGeminiStreamToOpenAIStream parse rnd now (delivering cs @ [End]) model =
     (transformGeminiStreamToOpenAIStream parse rnd now (delivering cs) model)
       \<lparr>written :=
          written (transformGeminiStreamToOpenAIStream parse rnd now (delivering cs) model)
            @ (if written (transformGeminiStreamToOpenAIStream parse rnd now (delivering cs) model) = []
               then [content_chunk rnd now model (JStr placeholder)] else [])
            @ [terminal_chunk rnd now model, DataDone],
        writableEnded := True\<rparr>"
proof -
  let ?st = "transformGeminiStreamToOpenAIStream parse rnd now (delivering cs) model"
  have e: "transformGeminiStreamToOpenAIStream parse rnd now (delivering cs @ [End]) model
      = on_end ?st"
    by (simp add: transformGeminiStreamToOpenAIStream_def)
  have o: "\<not> writableEnded ?st"
    by (simp add: data_phase listening_def)
  have h: "hasSentContent ?st = (written ?st \<noteq> [])"
    by (simp add: data_phase)
  have c: "DataChunk (make_chunk ?st (Some x) None) = content_chunk rnd now model x" for x
    by (simp add: data_phase make_chunk_def content_chunk_def listening_def)
  have t: "DataChunk (make_chunk ?st None (Some (str ''stop''))) = terminal_chunk rnd now model"
    by (simp add: data_phase make_chunk_def terminal_chunk_def listening_def)
  show ?thesis
    unfolding e on_end_open [OF o] h c t by simp
qed

lemma map_filter_append: "List.map_filter f (xs @ ys) = List.map_filter f xs @ List.map_filter f ys"
  by (simp add: List.map_filter_def)

lemma is_frame_boundary: "is_frame f \<Longrightarrow> indexOf_nn (f @ [0x0A, 0x0A]) = Some (length f)"
  unfolding is_frame_def
  by (induction f rule: indexOf_nn.induct) (auto split: if_splits)

lemma frames_of_frame:
  assumes "is_frame f"
  shows "frames_of (f @ [0x0A, 0x0A]) = [f]" and "rest_of (f @ [0x0A, 0x0A]) = []"
  using is_frame_boundary [OF assms]
  by (simp_all add: frames_of.simps [of "f @ [0x0A, 0x0A]"] rest_of.simps [of "f @ [0x0A, 0x0A]"]
      frames_of_None rest_of_None)

lemma before_delimiter:
  assumes "is_frame f" and "x @ y = f @ [0x0A, 0x0A]" and "y \<noteq> []"
  shows "indexOf_nn x = None"
proof -
  from assms(3) have y: "y = butlast y @ [last y]"
    by simp
  with assms(2) have "(x @ butlast y) @ [last y] = (f @ [0x0A]) @ [0x0A]"
    by (metis append.assoc append_Cons append_Nil)
  then have "x @ butlast y = f @ [0x0A]"
    by (simp only: append1_eq_conv)
  with assms(1) have "indexOf_nn (x @ butlast y) = None"
    by (simp add: is_frame_def)
  then show ?thesis
    by (rule indexOf_nn_prefix_None)
qed

lemma written_nothing_delivered:
  "written (transformGeminiStreamToOpenAIStream parse rnd now (delivering []) model) = []"
  by (simp add: transformGeminiStreamToOpenAIStream_def delivering_def listening_def)

text \<open>
  C4. A frame with a text for the client (its payload parses, and the first text of the
  parsed value is truthy) arrives, followed by its blank-line delimiter, cut in any way
  into chunks, after earlier chunks that ended with a delimiter. As long as a part of the
  frame or of its delimiter has not arrived, the re-framer has written nothing for it; once
  the last chunk has arrived it has written exactly one content chunk, which holds the text.
  Chunks are given by their decoded text. The witness is the stream of the two chunks
  \<open>data: {"candidates":[{"content":{"parts":[{"text":"Hi"}]}}]}\<close> with one newline, and
  one more newline: nothing after the first, one content chunk \<open>Hi\<close> after the second.
\<close>

theorem split_frame_one_chunk:
  assumes "rest_of (concat pre) = []"
    and "is_frame frame" and "concat cs = frame @ [0x0A, 0x0A]"
    and "parse (strip_data_prefix frame) = Some v" and "first_text v = Inr t" and "truthy t"
  shows "(\<forall>n \<le> length cs. concat (drop n cs) \<noteq> [] \<longrightarrow>
            written (transformGeminiStreamToOpenAIStream parse rnd now
                       (delivering (pre @ take n cs)) model)
            = written (transformGeminiStreamToOpenAIStream parse rnd now (delivering pre) model))
       \<and> written (transformGeminiStreamToOpenAIStream parse rnd now (delivering (pre @ cs)) model)
         = written (transformGeminiStreamToOpenAIStream parse rnd now (delivering pre) model)
             @ [content_chunk rnd now model t]"
proof -
  have fr: "frames_of (concat pre @ x) = frames_of (concat pre) @ frames_of x" for x
    using frames_rest_append [of "concat pre" x] assms(1) by simp
  have c: "frame_content parse frame = Some t"
    by (simp add: frame_content_def assms(4,5,6))
  have "frames_of (concat (pre @ cs)) = frames_of (concat pre) @ [frame]"
    by (simp add: fr assms(3) frames_of_frame [OF assms(2)])
  then have whole: "written (transformGeminiStreamToOpenAIStream parse rnd now
        (delivering (pre @ cs)) model)
      = written (transformGeminiStreamToOpenAIStream parse rnd now (delivering pre) model)
          @ [content_chunk rnd now model t]"
    by (simp add: data_phase List.map_filter_simps c map_filter_append)
  have part: "written (transformGeminiStreamToOpenAIStream parse rnd now
        (delivering (pre @ take n cs)) model)
      = written (transformGeminiStreamToOpenAIStream parse rnd now (delivering pre) model)"
    if "concat (drop n cs) \<noteq> []" for n
  proof -
    have "concat (take n cs) @ concat (drop n cs) = frame @ [0x0A, 0x0A]"
      by (metis append_take_drop_id assms(3) concat_append)
    from before_delimiter [OF assms(2) this that]
    have "frames_of (concat (take n cs)) = []"
      by (rule frames_of_None)
    then have "frames_of (concat (pre @ take n cs)) = frames_of (concat pre)"
      by (simp add: fr)
    then show ?thesis
      by (simp add: data_phase)
  qed
  from whole part show ?thesis by blast
qed

theorem split_frame_one_chunk_witness:
  "is_frame (str ''data: {\"candidates\":[{\"content\":{\"parts\":[{\"text\":\"Hi\"}]}}]}'')
   \<and> JSON_parse (strip_data_prefix
         (str ''data: {\"candidates\":[{\"content\":{\"parts\":[{\"text\":\"Hi\"}]}}]}''))
       = Some (JObj [(str ''candidates'',
                 JArr [JObj [(str ''content'',
                   JObj [(str ''parts'', JArr [JObj [(str ''text'', JStr (str ''Hi''))]])])]])])
   \<and> written (transformGeminiStreamToOpenAIStream JSON_parse (str ''302e36323831'') 1700000000123
        (delivering
          [str ''data: {\"candidates\":[{\"content\":{\"parts\":[{\"text\":\"Hi\"}]}}]}\<newline>''])
        (JStr (str ''gemini-1.5-flash'')))
       = []
   \<and> written (transformGeminiStreamToOpenAIStream JSON_parse (str ''302e36323831'') 1700000000123
        (delivering
          [str ''data: {\"candidates\":[{\"content\":{\"parts\":[{\"text\":\"Hi\"}]}}]}\<newline>'',
           str ''\<newline>''])
        (JStr (str ''gemini-1.5-flash'')))
       = [content_chunk (str ''302e36323831'') 1700000000123 (JStr (str ''gemini-1.5-flash''))
            (JStr (str ''Hi''))]"
proof -
  let ?f = "str ''data: {\"candidates\":[{\"content\":{\"parts\":[{\"text\":\"Hi\"}]}}]}''"
  let ?v = "JObj [(str ''candidates'',
                 JArr [JObj [(str ''content'',
                   JObj [(str ''parts'', JArr [JObj [(str ''text'', JStr (str ''Hi''))]])])]])]"
  let ?cs = "[str ''data: {\"candidates\":[{\"content\":{\"parts\":[{\"text\":\"Hi\"}]}}]}\<newline>'',
              str ''\<newline>'']"
  have pre: "rest_of (concat ([] :: jsstring list)) = []"
    by (simp add: rest_of_None)
  have f: "is_frame ?f"
    by code_simp
  have cs: "concat ?cs = ?f @ [0x0A, 0x0A]"
    by (simp add: str_def)
  have p: "JSON_parse (strip_data_prefix ?f) = Some ?v"
    by code_simp
  have t: "first_text ?v = Inr (JStr (str ''Hi''))"
    by (rule first_text_example)
  have tr: "truthy (JStr (str ''Hi''))"
    by (simp add: str_def)
  have one: "(1::nat) \<le> length ?cs" and more: "concat (drop 1 ?cs) \<noteq> []"
    by (simp_all add: str_def)
  from split_frame_one_chunk [where parse = JSON_parse and rnd = "str ''302e36323831''"
      and now = 1700000000123 and model = "JStr (str ''gemini-1.5-flash'')", OF pre f cs p t tr]
  have a: "\<forall>n \<le> length ?cs. concat (drop n ?cs) \<noteq> [] \<longrightarrow>
            written (transformGeminiStreamToOpenAIStream JSON_parse (str ''302e36323831'')
                       1700000000123 (delivering ([] @ take n ?cs)) (JStr (str ''gemini-1.5-flash'')))
            = written (transformGeminiStreamToOpenAIStream JSON_parse (str ''302e36323831'')
                       1700000000123 (delivering []) (JStr (str ''gemini-1.5-flash'')))"
    and b: "written (transformGeminiStreamToOpenAIStream JSON_parse (str ''302e36323831'')
              1700000000123 (delivering ([] @ ?cs)) (JStr (str ''gemini-1.5-flash'')))
         = written (transformGeminiStreamToOpenAIStream JSON_parse (str ''302e36323831'')
              1700000000123 (delivering []) (JStr (str ''gemini-1.5-flash'')))
             @ [content_chunk (str ''302e36323831'') 1700000000123
                  (JStr (str ''gemini-1.5-flash'')) (JStr (str ''Hi''))]"
    by blast+
  from a one more
  have "written (transformGeminiStreamToOpenAIStream JSON_parse (str ''302e36323831'')
                       1700000000123 (delivering ([] @ take 1 ?cs)) (JStr (str ''gemini-1.5-flash'')))
            = written (transformGeminiStreamToOpenAIStream JSON_parse (str ''302e36323831'')
                       1700000000123 (delivering []) (JStr (str ''gemini-1.5-flash'')))"
    by blast
  then have first: "written (transformGeminiStreamToOpenAIStream JSON_parse (str ''302e36323831'')
                       1700000000123 (delivering [hd ?cs]) (JStr (str ''gemini-1.5-flash''))) = []"
    by (simp add: written_nothing_delivered)
  from b have second: "written (transformGeminiStreamToOpenAIStream JSON_parse (str ''302e36323831'')
              1700000000123 (delivering ?cs) (JStr (str ''gemini-1.5-flash'')))
         = [content_chunk (str ''302e36323831'') 1700000000123
                  (JStr (str ''gemini-1.5-flash'')) (JStr (str ''Hi''))]"
    by (simp add: written_nothing_delivered)
  from f p first second show ?thesis
    by simp
qed

text \<open>
  C5, amended. For a backend stream that raises \<open>end\<close> after its chunks: if no content
  chunk has been written when it ends, the re-framer writes the content chunk with the
  placeholder (its \<open>finish_reason\<close> is \<open>null\<close>), then the terminal chunk with an empty
  \<open>delta\<close> and the \<open>finish_reason\<close> \<open>stop\<close>, then the \<open>[DONE]\<close> event, and these three
  are all it has written; in every case the response is ended and the last event written
  is \<open>[DONE]\<close>. A stream that raises \<open>error\<close> is outside this statement: the \<open>error\<close>
  handler ends the response and writes nothing.
\<close>

theorem stream_end_fallback:
  "(written (transformGeminiStreamToOpenAIStream parse rnd now (delivering cs) model) = [] \<longrightarrow>
      written (transformGeminiStreamToOpenAIStream parse rnd now (delivering cs @ [End]) model)
      = [content_chunk rnd now model (JStr placeholder), terminal_chunk rnd now model, DataDone])
   \<and> writableEnded (transformGeminiStreamToOpenAIStream parse rnd now (delivering cs @ [End]) model)
   \<and> last (written (transformGeminiStreamToOpenAIStream parse rnd now (delivering cs @ [End]) model))
       = DataDone"
  by (simp add: stream_end)

theorem stream_end_fallback_witness:
  "written (transformGeminiStreamToOpenAIStream JSON_parse (str ''302e36323831'') 1700000000123
      (delivering [str ''data: {}\<newline>\<newline>'']) JNull) = []
   \<and> written (transformGeminiStreamToOpenAIStream JSON_parse (str ''302e36323831'') 1700000000123
      (delivering [str ''data: {}\<newline>\<newline>''] @ [End]) JNull)
     = [content_chunk (str ''302e36323831'') 1700000000123 JNull (JStr placeholder),
        terminal_chunk (str ''302e36323831'') 1700000000123 JNull, DataDone]
   \<and> writableEnded (transformGeminiStreamToOpenAIStream JSON_parse (str ''302e36323831'')
      1700000000123 (delivering [str ''data: {}\<newline>\<newline>''] @ [End]) JNull)
   \<and> last (written (transformGeminiStreamToOpenAIStream JSON_parse (str ''302e36323831'')
      1700000000123 (delivering [str ''data: {}\<newline>\<newline>''] @ [End]) JNull)) = DataDone"
proof -
  have h: "written (transformGeminiStreamToOpenAIStream JSON_parse (str ''302e36323831'')
      1700000000123 (delivering [str ''data: {}\<newline>\<newline>'']) JNull) = []"
    by code_simp
  from stream_end_fallback [where parse = JSON_parse and rnd = "str ''302e36323831''"
      and now = 1700000000123 and model = JNull and cs = "[str ''data: {}\<newline>\<newline>'']"]
  show ?thesis
    using h by blast
qed

text \<open>
  The claim as it was stated, that the last event of every stream is the \<open>[DONE]\<close>
  event, fails on a stream that delivers one frame and then raises \<open>error\<close>: the response
  is ended and the content chunk is the last event written.
\<close>

theorem stream_error_counterexample:
  "writableEnded (transformGeminiStreamToOpenAIStream JSON_parse (str ''302e36323831'')
      1700000000123
      [Data (str ''data: {\"candidates\":[{\"content\":{\"parts\":[{\"text\":\"Hi\"}]}}]}\<newline>\<newline>''),
       Error] JNull)
   \<and> written (transformGeminiStreamToOpenAIStream JSON_parse (str ''302e36323831'')
      1700000000123
      [Data (str ''data: {\"candidates\":[{\"content\":{\"parts\":[{\"text\":\"Hi\"}]}}]}\<newline>\<newline>''),
       Error] JNull)
     = [content_chunk (str ''302e36323831'') 1700000000123 JNull (JStr (str ''Hi''))]
   \<and> last (written (transformGeminiStreamToOpenAIStream JSON_parse (str ''302e36323831'')
      1700000000123
      [Data (str ''data: {\"candidates\":[{\"content\":{\"parts\":[{\"text\":\"Hi\"}]}}]}\<newline>\<newline>''),
       Error] JNull)) \<noteq> DataDone"
  by code_simp

text \<open>
  C6. For a backend stream in which the payload of every frame fails to parse, the
  re-framer writes nothing while the chunks arrive, and when the stream ends it still
  writes the terminal chunk and the \<open>[DONE]\<close> event, after the placeholder chunk that the
  fallback-content policy puts before them, and ends the response.
\<close>

theorem unparseable_frames_dropped:
  assumes "\<forall>f \<in> set (frames_of (concat cs)). parse (strip_data_prefix f) = None"
  shows "written (transformGeminiStreamToOpenAIStream parse rnd now (delivering cs) model) = []
       \<and> written (transformGeminiStreamToOpenAIStream parse rnd now (delivering cs @ [End]) model)
         = [content_chunk rnd now model (JStr placeholder), terminal_chunk rnd now model, DataDone]
       \<and> writableEnded
           (transformGeminiStreamToOpenAIStream parse rnd now (delivering cs @ [End]) model)"
proof -
  from assms have "\<forall>f \<in> set (frames_of (concat cs)). frame_content parse f = None"
    by (simp add: frame_content_def)
  then have "List.map_filter (frame_content parse) (frames_of (concat cs)) = []"
    by (simp add: List.map_filter_def filter_empty_conv)
  then have "written (transformGeminiStreamToOpenAIStream parse rnd now (delivering cs) model) = []"
    by (simp add: data_phase)
  then show ?thesis
    by (simp add: stream_end)
qed

theorem unparseable_frames_dropped_witness:
  "frames_of (concat [str ''data: {\"candidates\":[{\"content\":{\"par'',
                      str ''\<newline>\<newline>oops\<newline>\<newline>''])
     = [str ''data: {\"candidates\":[{\"content\":{\"par'', str ''oops'']
   \<and> JSON_parse (strip_data_prefix (str ''data: {\"candidates\":[{\"content\":{\"par'')) = None
   \<and> JSON_parse (strip_data_prefix (str ''oops'')) = None
   \<and> written (transformGeminiStreamToOpenAIStream JSON_parse (str ''302e36323831'') 1700000000123
        (delivering [str ''data: {\"candidates\":[{\"content\":{\"par'',
                     str ''\<newline>\<newline>oops\<newline>\<newline>'']) JNull) = []
   \<and> written (transformGeminiStreamToOpenAIStream JSON_parse (str ''302e36323831'') 1700000000123
        (delivering [str ''data: {\"candidates\":[{\"content\":{\"par'',
                     str ''\<newline>\<newline>oops\<newline>\<newline>''] @ [End]) JNull)
       = [content_chunk (str ''302e36323831'') 1700000000123 JNull (JStr placeholder),
          terminal_chunk (str ''302e36323831'') 1700000000123 JNull, DataDone]
   \<and> writableEnded (transformGeminiStreamToOpenAIStream JSON_parse (str ''302e36323831'')
        1700000000123
        (delivering [str ''data: {\"candidates\":[{\"content\":{\"par'',
                     str ''\<newline>\<newline>oops\<newline>\<newline>''] @ [End]) JNull)"
proof -
  let ?cs = "[str ''data: {\"candidates\":[{\"content\":{\"par'',
              str ''\<newline>\<newline>oops\<newline>\<newline>'']"
  have fs: "frames_of (concat ?cs) = [str ''data: {\"candidates\":[{\"content\":{\"par'', str ''oops'']"
    by code_simp
  have p1: "JSON_parse (strip_data_prefix (str ''data: {\"candidates\":[{\"content\":{\"par'')) = None"
    by code_simp
  have p2: "JSON_parse (strip_data_prefix (str ''oops'')) = None"
    by code_simp
  have h: "\<forall>f \<in> set (frames_of (concat ?cs)). JSON_parse (strip_data_prefix f) = None"
    unfolding fs using p1 p2 by simp
  from unparseable_frames_dropped [OF h, of "str ''302e36323831''" 1700000000123 JNull]
  show ?thesis
    using fs p1 p2 by blast
qed

text \<open>
  The identifier and the time stamp are computed once, when the handlers are registered:
  no handler assigns them, and every chunk is built from them.
\<close>

lemma stamped_try_frame: "stamped i c st \<Longrightarrow> stamped i c (try_frame parse j st)"
  by (auto simp: stamped_def try_frame_def res_write_def make_chunk_def Let_def
      split: option.splits sum.splits)

lemma stamped_take_frame: "stamped i c st \<Longrightarrow> stamped i c (take_frame parse k st)"
  unfolding take_frame_def Let_def
  by (rule stamped_try_frame) (simp add: stamped_def)

lemma stamped_drain: "stamped i c st \<Longrightarrow> stamped i c (drain parse st)"
proof (induction parse st rule: drain.induct)
  case (1 parse st)
  show ?case
  proof (cases "indexOf_nn (buffer st)")
    case None
    with "1.prems" show ?thesis
      by (simp add: drain.simps [of parse st])
  next
    case (Some k)
    from "1.IH" [OF Some stamped_take_frame [OF "1.prems"]] show ?thesis
      by (simp add: drain.simps [of parse st] Some)
  qed
qed

lemma stamped_emit: "stamped i c st \<Longrightarrow> stamped i c (emit parse st e)"
proof (cases e)
  case (Data chunk)
  assume "stamped i c st"
  then have "stamped i c (st\<lparr>buffer := buffer st @ chunk\<rparr>)"
    by (simp add: stamped_def)
  then show ?thesis
    by (simp add: Data on_data_def stamped_drain)
next
  case End
  assume "stamped i c st"
  then show ?thesis
    by (simp add: End on_end_def res_write_def res_end_def make_chunk_def stamped_def Let_def)
next
  case Error
  assume "stamped i c st"
  then show ?thesis
    by (simp add: Error on_error_def res_end_def stamped_def)
qed

lemma stamped_events: "stamped i c st \<Longrightarrow> stamped i c (foldl (emit parse) st evs)"
  by (induction evs arbitrary: st) (simp_all add: stamped_emit)

lemma stamped_listening: "stamped (fresh_id rnd) (seconds now) (listening rnd now model)"
  by (simp add: stamped_def listening_def)

text \<open>
  C7. Whatever events a backend stream raises, every chunk written to the response
  (content chunks, the placeholder chunk, the terminal chunk) carries the identifier and
  the time stamp computed at the start of the exchange; the single response of an
  exchange without streaming carries the identifier and the time stamp computed for it.
\<close>

theorem one_id_per_exchange:
  "(\<forall>e \<in> set (written (transformGeminiStreamToOpenAIStream parse rnd now evs model)).
      carries (fresh_id rnd) (seconds now) e)
   \<and> (\<forall>resp. geminiToOpenAIResponse rnd now r model = Inr resp \<longrightarrow>
         r_id resp = fresh_id rnd \<and> r_created resp = seconds now)"
proof -
  have "stamped (fresh_id rnd) (seconds now)
      (transformGeminiStreamToOpenAIStream parse rnd now evs model)"
    unfolding transformGeminiStreamToOpenAIStream_def
    by (rule stamped_events) (rule stamped_listening)
  then have a: "\<forall>e \<in> set (written (transformGeminiStreamToOpenAIStream parse rnd now evs model)).
      carries (fresh_id rnd) (seconds now) e"
    by (simp add: stamped_def list_all_iff)
  have b: "r_id resp = fresh_id rnd \<and> r_created resp = seconds now"
    if "geminiToOpenAIResponse rnd now r model = Inr resp" for resp
    using that
    by (auto simp: geminiToOpenAIResponse_def response_object_def
        split: sum.splits js.splits if_splits)
  from a b show ?thesis by blast
qed

theorem one_id_per_exchange_witness:
  "written (transformGeminiStreamToOpenAIStream JSON_parse (str ''302e36323831'') 1700000000123
      [Data (str ''data: {\"candidates\":[{\"content\":{\"parts\":[{\"text\":\"Hi\"}]}}]}\<newline>\<newline>''),
       End] JNull)
     = [content_chunk (str ''302e36323831'') 1700000000123 JNull (JStr (str ''Hi'')),
        terminal_chunk (str ''302e36323831'') 1700000000123 JNull, DataDone]
   \<and> list_all (carries (str ''chatcmpl-302e36323831'') 1700000000)
        (written (transformGeminiStreamToOpenAIStream JSON_parse (str ''302e36323831'')
          1700000000123
          [Data (str ''data: {\"candidates\":[{\"content\":{\"parts\":[{\"text\":\"Hi\"}]}}]}\<newline>\<newline>''),
           End] JNull))
   \<and> (\<exists>resp. geminiToOpenAIResponse (str ''302e36323831'') 1700000000123 (JObj []) JNull = Inr resp
        \<and> r_id resp = str ''chatcmpl-302e36323831'' \<and> r_created resp = 1700000000)"
proof -
  have w: "written (transformGeminiStreamToOpenAIStream JSON_parse (str ''302e36323831'')
      1700000000123
      [Data (str ''data: {\"candidates\":[{\"content\":{\"parts\":[{\"text\":\"Hi\"}]}}]}\<newline>\<newline>''),
       End] JNull)
     = [content_chunk (str ''302e36323831'') 1700000000123 JNull (JStr (str ''Hi'')),
        terminal_chunk (str ''302e36323831'') 1700000000123 JNull, DataDone]"
    by code_simp
  have i: "fresh_id (str ''302e36323831'') = str ''chatcmpl-302e36323831''"
    by (simp add: fresh_id_def str_def)
  have c: "seconds 1700000000123 = 1700000000"
    by (simp add: seconds_def)
  have "\<exists>resp. geminiToOpenAIResponse (str ''302e36323831'') 1700000000123 (JObj []) JNull
      = Inr resp"
    by (simp add: geminiToOpenAIResponse_def first_text_def member_def opt_member_def
        opt_index0_def or_else_def response_object_def usage_count_def)
  then obtain resp where r: "geminiToOpenAIResponse (str ''302e36323831'') 1700000000123
      (JObj []) JNull = Inr resp"
    by blast
  from one_id_per_exchange [where parse = JSON_parse and rnd = "str ''302e36323831''"
      and now = 1700000000123 and model = JNull and r = "JObj []"
      and evs = "[Data (str ''data: {\"candidates\":[{\"content\":{\"parts\":[{\"text\":\"Hi\"}]}}]}\<newline>\<newline>''),
       End]"]
  show ?thesis
    unfolding i c list_all_iff using w r by blast
qed


section \<open>Properties of the route without streaming\<close>

text \<open>
  C9, amended. In the deployment that has no streaming (\<open>part_001\<close>), a chat-completion
  request with a credential (an \<open>authorization\<close> header made of \<open>Bearer \<close> and a
  non-empty key) whose \<open>stream\<close> is truthy is answered with the status 400 and an error
  body, whatever else its body holds and whatever the backend would answer, and no backend
  call is made.
\<close>

theorem vercel_rejects_stream:
  assumes "authorization req = Some (str ''Bearer '' @ apiKey)" and "apiKey \<noteq> []"
    and "truthy (get (body req) (str ''stream''))"
  shows "chat_completions_vercel axios_post rnd now req =
     (\<lparr>status = 400,
       json = ErrorMessage (str ''Streaming is not supported in this Vercel deployment.'')\<rparr>, [])"
proof -
  have k: "getApiKey req = Some apiKey"
    by (simp add: getApiKey_def assms(1) str_def)
  from assms(3) have "\<not> nullish (body req)"
    by (cases "body req") simp_all
  then have m: "member (body req) (str ''stream'') = Inr (get (body req) (str ''stream''))"
    by (simp add: member_def)
  show ?thesis
    by (simp add: chat_completions_vercel_def k assms(2,3) m)
qed

theorem vercel_rejects_stream_witness:
  "authorization \<lparr>authorization = Some (str ''Bearer '' @ str ''k''),
                   body = JObj [(str ''stream'', JBool True)]\<rparr>
     = Some (str ''Bearer '' @ str ''k'')
   \<and> str ''k'' \<noteq> []
   \<and> truthy (get (body \<lparr>authorization = Some (str ''Bearer '' @ str ''k''),
                          body = JObj [(str ''stream'', JBool True)]\<rparr>) (str ''stream''))
   \<and> chat_completions_vercel backend_down [] 0
        \<lparr>authorization = Some (str ''Bearer '' @ str ''k''),
         body = JObj [(str ''stream'', JBool True)]\<rparr>
     = (\<lparr>status = 400,
         json = ErrorMessage (str ''Streaming is not supported in this Vercel deployment.'')\<rparr>,
        [])"
proof -
  let ?req = "\<lparr>authorization = Some (str ''Bearer '' @ str ''k''),
               body = JObj [(str ''stream'', JBool True)]\<rparr>"
  have a: "authorization ?req = Some (str ''Bearer '' @ str ''k'')"
    by simp
  have k: "str ''k'' \<noteq> []"
    by (simp add: str_def)
  have s: "truthy (get (body ?req) (str ''stream''))"
    by simp
  from vercel_rejects_stream [OF a k s, of backend_down "[]" 0] show ?thesis
    using a k s by blast
qed

text \<open>
  The claim as it was stated, for every request whose \<open>stream\<close> is truthy, fails on a
  request without an \<open>authorization\<close> header: the credential is checked first and the
  answer is the status 401.
\<close>

theorem vercel_stream_without_credential:
  "truthy (get (body \<lparr>authorization = None, body = JObj [(str ''stream'', JBool True)]\<rparr>)
             (str ''stream''))
   \<and> chat_completions_vercel backend_down [] 0
        \<lparr>authorization = None, body = JObj [(str ''stream'', JBool True)]\<rparr>
     = (\<lparr>status = 401,
         json = ErrorMessage (str ''Authorization header is missing or invalid.'')\<rparr>, [])"
  by (simp add: chat_completions_vercel_def getApiKey_def)

end
